theory Spec2Isabelle
  imports Main
begin

section \<open>The application factory of \<open>src/__init__.py\<close>\<close>

text \<open>
  The whole repository is one Python function:
  \<^verbatim>\<open>
  from flask import Flask, render_template

  def create_app():
      app = Flask(__name__, template_folder="templates", static_folder="static")

      @app.get("/health")
      def health():
          return "ok"

      @app.get("/")
      def index():
          return render_template("main.html")

      return app
  \<close>
  Everything it does is a call into the Flask framework, so the embedding has two layers:
  the calls of the framework that this function makes (the constructor \<open>Flask\<close>, the
  decorator \<open>app.get\<close>, \<open>render_template\<close>, and the dispatch of a request to a
  registered view function), modelled after the framework's behaviour under its
  default configuration, and the three functions of the repository itself,
  \<open>create_app\<close>, \<open>health\<close> and \<open>index\<close>, translated line by line.
  What lies behind the framework (the template engine, the file server of the static
  directory, the text of the default error pages) is a parameter, the record \<open>env\<close>.
\<close>

subsection \<open>HTTP messages\<close>

datatype http_method = GET | HEAD | POST | PUT | DELETE | OPTIONS | PATCH | TRACE | CONNECT

text \<open>
  A request as the application receives it from the server. \<open>path\<close> is the decoded
  path (\<open>PATH_INFO\<close>), without the query string, which is kept in \<open>args\<close>.
  \<open>headers\<close> holds the request headers under the names the server's environment
  gives them: \<open>HTTP_CONNECTION\<close> for \<open>Connection\<close>, \<open>HTTP_UPGRADE\<close> for
  \<open>Upgrade\<close>.
\<close>

record request =
  meth :: http_method
  path :: string
  args :: "(string \<times> string) list"
  headers :: "string \<rightharpoonup> string"
  data :: string

text \<open>
  Of a response, the model keeps the status, the content type, the methods of the
  \<open>Allow\<close> header and the body.
\<close>

record response =
  status :: nat
  content_type :: string
  allow :: "http_method set"
  body :: string

subsection \<open>Exceptions and the environment\<close>

text \<open>
  The exceptions that can arise while a request is served: the routing exceptions of
  the URL map (all four are HTTP exceptions, \<open>RequestRedirect\<close> with the path to
  go to), the failures of the template engine, and the programming errors that a call
  can meet.
\<close>

datatype exn =
  NotFound
  | MethodNotAllowed "http_method set"
  | WebsocketMismatch
  | RequestRedirect string
  | TemplateNotFound string
  | TemplateError string
  | RuntimeError string
  | KeyError string
  | TypeError string

text \<open>What the template engine answers for a search path and a template name.\<close>

datatype rendered = Rendered string | Missing | Failed string

text \<open>
  \<open>render dir name rq\<close> is the template engine on the search path \<open>dir\<close>, while
  the request \<open>rq\<close> is served; \<open>static_file dir name rq\<close> is the response of the
  framework's file server for the file \<open>name\<close> under the directory \<open>dir\<close> to the
  request \<open>rq\<close> (the whole file, a part of it, or a not-modified answer), or nothing
  if the file server does not find or accept the file; \<open>error_page code\<close> is the body of
  the framework's default page for an HTTP exception.
\<close>

record env =
  render :: "string \<Rightarrow> string \<Rightarrow> request \<Rightarrow> rendered"
  static_file :: "string \<Rightarrow> string \<Rightarrow> request \<Rightarrow> response option"
  error_page :: "nat \<Rightarrow> string"

subsection \<open>The application object\<close>

text \<open>
  The three constructor arguments that \<open>create_app\<close> passes. \<open>root_path\<close> is the
  directory of the module that \<open>__name__\<close> names: the application's base location.
\<close>

record config =
  root_path :: string
  template_folder :: "string option"
  static_folder :: "string option"

text \<open>What a view function returns: a string, or a finished response.\<close>

datatype rv = Str string | Resp response

text \<open>
  A function that serves a request sees the environment, the configuration of the
  current application and the current request. A view function is called with the
  values that the route has bound as its keyword arguments.
\<close>

type_synonym handler = "env \<Rightarrow> config \<Rightarrow> request \<Rightarrow> exn + rv"

type_synonym view = "env \<Rightarrow> config \<Rightarrow> request \<Rightarrow> (string \<times> string) list \<Rightarrow> exn + rv"

text \<open>A Python function without parameters, called with keyword arguments.\<close>

definition no_args :: "handler \<Rightarrow> view" where
  "no_args f e c rq vs =
     (if vs = [] then f e c rq else Inl (TypeError ''got an unexpected keyword argument''))"

record url_rule =
  pattern :: string
  methods :: "http_method set"
  endpoint :: string
  provide_automatic_options :: bool
  websocket :: bool

record app =
  cfg :: config
  url_map :: "url_rule list"
  view_functions :: "string \<rightharpoonup> view"
  got_first_request :: bool

subsection \<open>Strings and paths\<close>

text \<open>\<open>str.lower\<close>, \<open>str.strip\<close> and \<open>str.split\<close> on strings of one-byte characters;
  only the letters \<open>A\<close> to \<open>Z\<close> have a lower-case form that is an ASCII letter.\<close>

definition lower_char :: "char \<Rightarrow> char" where
  "lower_char c =
     (case map_of (zip ''ABCDEFGHIJKLMNOPQRSTUVWXYZ'' ''abcdefghijklmnopqrstuvwxyz'') c of
        None \<Rightarrow> c
      | Some l \<Rightarrow> l)"

definition lower :: "string \<Rightarrow> string" where
  "lower s = map lower_char s"

definition isspace :: "char \<Rightarrow> bool" where
  "isspace c = ((of_char c :: nat) \<in> {9, 10, 11, 12, 13, 28, 29, 30, 31, 32, 133, 160})"

definition strip :: "string \<Rightarrow> string" where
  "strip s = rev (dropWhile isspace (rev (dropWhile isspace s)))"

fun split_on :: "char \<Rightarrow> string \<Rightarrow> string list" where
  "split_on s [] = [[]]"
| "split_on s (c # cs) =
     (if c = s then [] # split_on s cs
      else (case split_on s cs of [] \<Rightarrow> [[c]] | w # ws \<Rightarrow> (c # w) # ws))"

text \<open>\<open>os.path.join\<close> and \<open>os.path.basename\<close> on POSIX paths.\<close>

definition path_join :: "string \<Rightarrow> string \<Rightarrow> string" where
  "path_join a b =
     (if b \<noteq> [] \<and> hd b = CHR ''/'' then b
      else if a = [] \<or> last a = CHR ''/'' then a @ b
      else a @ ''/'' @ b)"

definition basename :: "string \<Rightarrow> string" where
  "basename p = rev (takeWhile (\<lambda>c. c \<noteq> CHR ''/'') (rev p))"

definition rstrip_slash :: "string \<Rightarrow> string" where
  "rstrip_slash s = rev (dropWhile (\<lambda>c. c = CHR ''/'') (rev s))"

text \<open>The directories the two folder names denote, relative to the root path.\<close>

definition template_dir :: "config \<Rightarrow> string option" where
  "template_dir c = map_option (path_join (root_path c)) (template_folder c)"

definition static_dir :: "config \<Rightarrow> string option" where
  "static_dir c = map_option (path_join (root_path c)) (static_folder c)"

definition static_url_path :: "config \<Rightarrow> string option" where
  "static_url_path c =
     map_option (\<lambda>d. rstrip_slash (''/'' @ basename d)) (static_dir c)"

subsection \<open>The framework: registering routes\<close>

text \<open>
  \<open>add_url_rule\<close>: without a \<open>methods\<close> argument a rule listens for GET; OPTIONS
  is added to every rule that does not name it, and is then answered by the framework
  itself; the URL map adds HEAD to every rule that has GET. A rule registered this way
  is not a websocket rule.
\<close>

definition add_url_rule ::
  "string \<Rightarrow> string \<Rightarrow> view \<Rightarrow> http_method set option \<Rightarrow> app \<Rightarrow> app" where
  "add_url_rule pat ep view_func ms a =
     (let ms0 = (case ms of None \<Rightarrow> {GET} | Some s \<Rightarrow> s);
          auto_options = (OPTIONS \<notin> ms0);
          ms1 = (if auto_options then insert OPTIONS ms0 else ms0);
          ms2 = (if GET \<in> ms1 \<and> HEAD \<notin> ms1 then insert HEAD ms1 else ms1)
      in a\<lparr>url_map := url_map a @
              [\<lparr>pattern = pat, methods = ms2, endpoint = ep,
                provide_automatic_options = auto_options, websocket = False\<rparr>],
            view_functions := (view_functions a)(ep \<mapsto> view_func)\<rparr>)"

text \<open>\<open>app.get(rule)(f)\<close> is \<open>add_url_rule\<close> with \<open>methods=["GET"]\<close> and the
  function's name as the endpoint; \<open>f\<close> is a function without parameters.\<close>

definition app_get :: "string \<Rightarrow> string \<Rightarrow> handler \<Rightarrow> app \<Rightarrow> app" where
  "app_get pat name f a = add_url_rule pat name (no_args f) (Some {GET}) a"

text \<open>
  \<open>send_static_file\<close>: what the file server answers to the current request for the
  file of that name under the static directory, or the HTTP exception \<open>NotFound\<close>.
\<close>

definition send_static_file :: "env \<Rightarrow> config \<Rightarrow> request \<Rightarrow> string \<Rightarrow> exn + rv" where
  "send_static_file e c rq filename =
     (case static_dir c of
        None \<Rightarrow> Inl (RuntimeError ''static_folder must be set to serve static_files'')
      | Some d \<Rightarrow>
          (case static_file e d filename rq of
             None \<Rightarrow> Inl NotFound
           | Some r \<Rightarrow> Inr (Resp r)))"

text \<open>The view function of the static route: its one parameter is \<open>filename\<close>.\<close>

definition static_view :: view where
  "static_view e c rq vs =
     (case vs of
        [(k, f)] \<Rightarrow>
          if k = ''filename'' then send_static_file e c rq f
          else Inl (TypeError ''got an unexpected keyword argument'')
      | _ \<Rightarrow> Inl (TypeError ''filename''))"

text \<open>
  The constructor. An application with a static folder starts with one rule, the static
  route \<open><static_url_path>/<path:filename>\<close>, under the endpoint \<open>static\<close>.
\<close>

definition Flask :: "string \<Rightarrow> string option \<Rightarrow> string option \<Rightarrow> app" where
  "Flask root tf sf =
     (let c = \<lparr>root_path = root, template_folder = tf, static_folder = sf\<rparr>;
          a = \<lparr>cfg = c, url_map = [], view_functions = Map.empty,
               got_first_request = False\<rparr>
      in case static_url_path c of
           None \<Rightarrow> a
         | Some u \<Rightarrow> add_url_rule (u @ ''/<path:filename>'') ''static'' static_view None a)"

subsection \<open>The framework: rendering a template\<close>

definition render_template :: "env \<Rightarrow> config \<Rightarrow> request \<Rightarrow> string \<Rightarrow> exn + string" where
  "render_template e c rq name =
     (case template_dir c of
        None \<Rightarrow> Inl (TemplateNotFound name)
      | Some d \<Rightarrow>
          (case render e d name rq of
             Rendered s \<Rightarrow> Inr s
           | Missing \<Rightarrow> Inl (TemplateNotFound name)
           | Failed msg \<Rightarrow> Inl (TemplateError msg)))"

subsection \<open>The framework: matching a request\<close>

text \<open>
  A request asks for a websocket when one of the comma-separated values of its
  \<open>Connection\<close> header is \<open>upgrade\<close> and its \<open>Upgrade\<close> header is
  \<open>websocket\<close>, in any case of the letters.
\<close>

definition header :: "request \<Rightarrow> string \<Rightarrow> string" where
  "header rq name = (case headers rq name of None \<Rightarrow> [] | Some v \<Rightarrow> v)"

definition is_websocket :: "request \<Rightarrow> bool" where
  "is_websocket rq =
     (''upgrade'' \<in> set (map strip (split_on CHR '','' (lower (header rq ''HTTP_CONNECTION''))))
      \<and> lower (header rq ''HTTP_UPGRADE'') = ''websocket'')"

text \<open>
  The path that the URL map matches: the request path with its leading slashes reduced
  to one; an empty path stays empty.
\<close>

definition path_part :: "string \<Rightarrow> string" where
  "path_part p = (if p = [] then [] else CHR ''/'' # dropWhile (\<lambda>c. c = CHR ''/'') p)"

text \<open>Merging slashes replaces, from the left, each two adjacent slashes by one.\<close>

fun merge_slashes :: "string \<Rightarrow> string" where
  "merge_slashes (a # b # cs) =
     (if a = CHR ''/'' \<and> b = CHR ''/'' then CHR ''/'' # merge_slashes cs
      else a # merge_slashes (b # cs))"
| "merge_slashes cs = cs"

text \<open>
  A rule without a variable part matches exactly its own text. A rule that ends in a
  \<open><path:NAME>\<close> converter matches its literal prefix followed by a non-empty rest that
  does not begin with a slash and has no line feed after its first character, and binds
  the rest to \<open>NAME\<close>. These are the two shapes of rule the application has.
\<close>

definition match_rule :: "string \<Rightarrow> string \<Rightarrow> (string \<times> string) list option" where
  "match_rule pat p =
     (let lit = takeWhile (\<lambda>c. c \<noteq> CHR ''<'') pat;
          conv = dropWhile (\<lambda>c. c \<noteq> CHR ''<'') pat
      in if conv = [] then (if p = pat then Some [] else None)
         else if take 6 conv = ''<path:'' \<and> last conv = CHR ''>'' then
           (let rest = drop (length lit) p
            in if take (length lit) p = lit \<and> rest \<noteq> [] \<and> hd rest \<noteq> CHR ''/''
                  \<and> CHR 0x0A \<notin> set (tl rest)
               then Some [(butlast (drop 6 conv), rest)] else None)
         else None)"

text \<open>A rule that ends in a slash is one slash away from a path that lacks it.\<close>

definition slash_rule :: "string \<Rightarrow> string \<Rightarrow> bool" where
  "slash_rule pat p = (pat = p @ ''/'')"

text \<open>
  One pass over the rules for a path. A rule that matches the path is taken if the
  method is one of its methods and it is a websocket rule exactly if the request asks
  for a websocket; if the method is not one of its methods, its methods are
  remembered; if only the websocket side differs, that is remembered. A rule that
  would match the path with one more slash, and fits the method and the websocket side,
  asks for a redirect. The rules of the application match disjoint sets of paths, so
  the order in which they are tried has no influence.
\<close>

datatype matched =
  Match url_rule "(string \<times> string) list"
  | SlashRequired
  | NoMatch "http_method set" bool

fun try_rules ::
  "url_rule list \<Rightarrow> http_method \<Rightarrow> bool \<Rightarrow> string \<Rightarrow> http_method set \<Rightarrow> bool \<Rightarrow> matched" where
  "try_rules [] m ws p have_match_for websocket_mismatch =
     NoMatch have_match_for websocket_mismatch"
| "try_rules (r # rs) m ws p have_match_for websocket_mismatch =
     (case match_rule (pattern r) p of
        Some vs \<Rightarrow>
          if m \<notin> methods r
          then try_rules rs m ws p (have_match_for \<union> methods r) websocket_mismatch
          else if websocket r \<noteq> ws
          then try_rules rs m ws p have_match_for True
          else Match r vs
      | None \<Rightarrow>
          if slash_rule (pattern r) p \<and> websocket r = ws \<and> m \<in> methods r
          then SlashRequired
          else try_rules rs m ws p have_match_for websocket_mismatch)"

text \<open>
  The URL map: one pass for the path; if it finds nothing, a second pass for the path
  with its slashes merged, where a match means a redirect to the merged path. When
  both passes find nothing, the answer is \<open>MethodNotAllowed\<close> if some rule matched the
  path but not the method, \<open>WebsocketMismatch\<close> if some rule matched but for the
  websocket side, and \<open>NotFound\<close> otherwise.
\<close>

definition url_match ::
  "url_rule list \<Rightarrow> http_method \<Rightarrow> bool \<Rightarrow> string \<Rightarrow>
   exn + (url_rule \<times> (string \<times> string) list)" where
  "url_match rules m ws path_info =
     (let p = path_part path_info
      in case try_rules rules m ws p {} False of
           Match r vs \<Rightarrow> Inr (r, vs)
         | SlashRequired \<Rightarrow> Inl (RequestRedirect (p @ ''/''))
         | NoMatch have1 wsm1 \<Rightarrow>
             (let p2 = merge_slashes p
              in case try_rules rules m ws p2 have1 wsm1 of
                   Match r vs \<Rightarrow> Inl (RequestRedirect p2)
                 | SlashRequired \<Rightarrow> Inl (RequestRedirect (p2 @ ''/''))
                 | NoMatch have2 wsm2 \<Rightarrow>
                     if have2 \<noteq> {} then Inl (MethodNotAllowed have2)
                     else if wsm2 then Inl WebsocketMismatch
                     else Inl NotFound))"

text \<open>The methods of the rules that match a path, for the \<open>Allow\<close> header of an
  automatic answer to OPTIONS.\<close>

fun allowed_methods :: "url_rule list \<Rightarrow> string \<Rightarrow> http_method set" where
  "allowed_methods [] p = {}"
| "allowed_methods (r # rs) p =
     (case match_rule (pattern r) p of
        None \<Rightarrow> allowed_methods rs p
      | Some vs \<Rightarrow> methods r \<union> allowed_methods rs p)"

subsection \<open>The framework: dispatching a request\<close>

definition html :: string where
  "html = ''text/html; charset=utf-8''"

text \<open>\<open>make_response\<close>: a string becomes a response with that body, status 200 and the
  framework's default content type.\<close>

definition make_response :: "rv \<Rightarrow> response" where
  "make_response v =
     (case v of
        Str s \<Rightarrow> \<lparr>status = 200, content_type = html, allow = {}, body = s\<rparr>
      | Resp r \<Rightarrow> r)"

definition make_default_options_response :: "app \<Rightarrow> request \<Rightarrow> response" where
  "make_default_options_response a rq =
     \<lparr>status = 200, content_type = html,
      allow = allowed_methods (url_map a) (path_part (path rq)), body = []\<rparr>"

text \<open>
  \<open>dispatch_request\<close>: raise the routing exception if there is one, answer OPTIONS
  for a rule with automatic options, and otherwise call the view function of the rule's
  endpoint. The first component names the view function that was called, if any.
\<close>

definition dispatch_request :: "env \<Rightarrow> app \<Rightarrow> request \<Rightarrow> string option \<times> (exn + rv)" where
  "dispatch_request e a rq =
     (case url_match (url_map a) (meth rq) (is_websocket rq) (path rq) of
        Inl ex \<Rightarrow> (None, Inl ex)
      | Inr (r, vs) \<Rightarrow>
          if provide_automatic_options r \<and> meth rq = OPTIONS
          then (None, Inr (Resp (make_default_options_response a rq)))
          else (case view_functions a (endpoint r) of
                  None \<Rightarrow> (None, Inl (KeyError (endpoint r)))
                | Some f \<Rightarrow> (Some (endpoint r), f e (cfg a) rq vs)))"

text \<open>
  No error handler is registered, so an HTTP exception becomes its own default
  response and every other exception the default response for status 500.
\<close>

definition handle_exception :: "env \<Rightarrow> exn \<Rightarrow> response" where
  "handle_exception e ex =
     (case ex of
        NotFound \<Rightarrow>
          \<lparr>status = 404, content_type = html, allow = {}, body = error_page e 404\<rparr>
      | MethodNotAllowed ms \<Rightarrow>
          \<lparr>status = 405, content_type = html, allow = ms, body = error_page e 405\<rparr>
      | WebsocketMismatch \<Rightarrow>
          \<lparr>status = 400, content_type = html, allow = {}, body = error_page e 400\<rparr>
      | RequestRedirect p \<Rightarrow>
          \<lparr>status = 308, content_type = html, allow = {}, body = error_page e 308\<rparr>
      | _ \<Rightarrow>
          \<lparr>status = 500, content_type = html, allow = {}, body = error_page e 500\<rparr>)"

record served =
  resp :: response
  invoked :: "string option"
  next_app :: app

definition full_dispatch_request :: "env \<Rightarrow> app \<Rightarrow> request \<Rightarrow> served" where
  "full_dispatch_request e a rq =
     (let a' = a\<lparr>got_first_request := True\<rparr>;
          d = dispatch_request e a' rq
      in \<lparr>resp = (case snd d of
                    Inl ex \<Rightarrow> handle_exception e ex
                  | Inr v \<Rightarrow> make_response v),
          invoked = fst d,
          next_app = a'\<rparr>)"

text \<open>\<open>wsgi_app\<close>: the response to a HEAD request is sent without its body.\<close>

definition wsgi_app :: "env \<Rightarrow> app \<Rightarrow> request \<Rightarrow> served" where
  "wsgi_app e a rq =
     (let s = full_dispatch_request e a rq
      in if meth rq = HEAD then s\<lparr>resp := (resp s)\<lparr>body := []\<rparr>\<rparr> else s)"

text \<open>The application after it has served a list of requests, one after the other.\<close>

fun serve_all :: "env \<Rightarrow> app \<Rightarrow> request list \<Rightarrow> app" where
  "serve_all e a [] = a"
| "serve_all e a (rq # rqs) = serve_all e (next_app (wsgi_app e a rq)) rqs"

subsection \<open>The repository: the two view functions and the factory\<close>

definition health :: handler where
  "health e c rq = Inr (Str ''ok'')"

definition index :: handler where
  "index e c rq =
     (case render_template e c rq ''main.html'' of
        Inl ex \<Rightarrow> Inl ex
      | Inr s \<Rightarrow> Inr (Str s))"

text \<open>
  The factory has no parameter of its own; \<open>root\<close> stands for the module global
  \<open>__name__\<close>, through the directory the framework derives from it.
\<close>

definition create_app :: "string \<Rightarrow> app" where
  "create_app root =
     (let app = Flask root (Some ''templates'') (Some ''static'');
          app = app_get ''/health'' ''health'' health app;
          app = app_get ''/'' ''index'' index app
      in app)"

subsection \<open>The configuration is assignable\<close>


subsection \<open>Application objects in a heap\<close>

text \<open>
  Each call of the constructor makes a new application object and, with it, a new URL
  map and a new dictionary of view functions, to which the application object refers.
  Where it matters which object a call reaches, the three kinds of objects live in a
  heap and a reference is an index into it.
\<close>

record app_obj =
  obj_cfg :: config
  url_map_ref :: nat
  view_functions_ref :: nat
  obj_got_first_request :: bool

record heap =
  app_objs :: "app_obj list"
  url_maps :: "url_rule list list"
  view_dicts :: "(string \<rightharpoonup> view) list"

definition empty_heap :: heap where
  "empty_heap = \<lparr>app_objs = [], url_maps = [], view_dicts = []\<rparr>"

text \<open>The application that a reference denotes, with the URL map and the dictionary it
  refers to.\<close>

definition load :: "heap \<Rightarrow> nat \<Rightarrow> app option" where
  "load h r =
     (if r < length (app_objs h) then
        (let ob = app_objs h ! r
         in if url_map_ref ob < length (url_maps h) \<and>
               view_functions_ref ob < length (view_dicts h)
            then Some \<lparr>cfg = obj_cfg ob, url_map = url_maps h ! url_map_ref ob,
                        view_functions = view_dicts h ! view_functions_ref ob,
                        got_first_request = obj_got_first_request ob\<rparr>
            else None)
      else None)"

text \<open>The constructor allocates the three objects.\<close>

definition new_Flask :: "string \<Rightarrow> string option \<Rightarrow> string option \<Rightarrow> heap \<Rightarrow> nat \<times> heap" where
  "new_Flask root tf sf h =
     (let a = Flask root tf sf
      in (length (app_objs h),
          \<lparr>app_objs = app_objs h @
             [\<lparr>obj_cfg = cfg a, url_map_ref = length (url_maps h),
               view_functions_ref = length (view_dicts h),
               obj_got_first_request = got_first_request a\<rparr>],
           url_maps = url_maps h @ [url_map a],
           view_dicts = view_dicts h @ [view_functions a]\<rparr>))"

text \<open>A method call on the application at \<open>r\<close> changes that object and the two it
  refers to, in place.\<close>

definition mutate :: "nat \<Rightarrow> (app \<Rightarrow> app) \<Rightarrow> heap \<Rightarrow> heap" where
  "mutate r f h =
     (case load h r of
        None \<Rightarrow> h
      | Some a \<Rightarrow>
          (let a' = f a; ob = app_objs h ! r
           in \<lparr>app_objs = (app_objs h)
                  [r := ob\<lparr>obj_cfg := cfg a', obj_got_first_request := got_first_request a'\<rparr>],
               url_maps = (url_maps h)[url_map_ref ob := url_map a'],
               view_dicts = (view_dicts h)[view_functions_ref ob := view_functions a']\<rparr>))"

text \<open>
  The factory with the application held by reference: \<open>app = Flask(...)\<close> makes the
  objects, and each decorator changes the application that \<open>app\<close> refers to.
\<close>

definition create_app_in :: "string \<Rightarrow> heap \<Rightarrow> nat \<times> heap" where
  "create_app_in root h =
     (let (app, h) = new_Flask root (Some ''templates'') (Some ''static'') h;
          h = mutate app (app_get ''/health'' ''health'' health) h;
          h = mutate app (app_get ''/'' ''index'' index) h
      in (app, h))"

text \<open>A run is a sequence of calls of the factory and of requests, each addressed to one
  application; \<open>own r\<close> are the requests of a run that are addressed to \<open>r\<close>.\<close>

datatype event = Create | Serve nat request

fun step :: "env \<Rightarrow> string \<Rightarrow> event \<Rightarrow> heap \<Rightarrow> heap" where
  "step e root Create h = snd (create_app_in root h)"
| "step e root (Serve r rq) h = mutate r (\<lambda>a. next_app (wsgi_app e a rq)) h"

fun run :: "env \<Rightarrow> string \<Rightarrow> event list \<Rightarrow> heap \<Rightarrow> heap" where
  "run e root [] h = h"
| "run e root (ev # evs) h = run e root evs (step e root ev h)"

fun own :: "nat \<Rightarrow> event list \<Rightarrow> request list" where
  "own r [] = []"
| "own r (Create # evs) = own r evs"
| "own r (Serve r' rq # evs) = (if r' = r then rq # own r evs else own r evs)"

text \<open>
  A heap is well formed when every application object refers to a URL map and a
  dictionary that are in the heap, and no two application objects refer to the same
  URL map or the same dictionary.
\<close>

definition well_formed :: "heap \<Rightarrow> bool" where
  "well_formed h =
     (list_all (\<lambda>ob. url_map_ref ob < length (url_maps h) \<and>
                     view_functions_ref ob < length (view_dicts h)) (app_objs h) \<and>
      distinct (map url_map_ref (app_objs h)) \<and>
      distinct (map view_functions_ref (app_objs h)))"

subsection \<open>Content types\<close>

text \<open>A content type is plain text when its media type, the part before the
  parameters, is \<open>text/plain\<close>.\<close>

definition plain_text :: "string \<Rightarrow> bool" where
  "plain_text ct = (takeWhile (\<lambda>c. c \<noteq> CHR '';'') ct = ''text/plain'')"

subsection \<open>A sample deployment\<close>

text \<open>
  An environment with one template and one static file under \<open>/srv/app\<close>, an
  environment with neither, and some requests, among them one that asks for a
  websocket, for evaluating the model.
\<close>

definition demo_env :: env where
  "demo_env =
     \<lparr>render = (\<lambda>d n rq. if d = ''/srv/app/templates'' \<and> n = ''main.html''
                          then Rendered ''<h1>Welcome</h1>'' else Missing),
      static_file = (\<lambda>d n rq. if d = ''/srv/app/static'' \<and> n = ''site.css''
                               then Some \<lparr>status = 200, content_type = ''text/css; charset=utf-8'',
                                          allow = {}, body = ''body {}''\<rparr>
                               else None),
      error_page = (\<lambda>code. ''<h1>Error</h1>'')\<rparr>"

definition bare_env :: env where
  "bare_env =
     \<lparr>render = (\<lambda>d n rq. Missing),
      static_file = (\<lambda>d n rq. None),
      error_page = (\<lambda>code. ''<h1>Error</h1>'')\<rparr>"

definition request_of :: "http_method \<Rightarrow> string \<Rightarrow> request" where
  "request_of m p = \<lparr>meth = m, path = p, args = [], headers = Map.empty, data = []\<rparr>"

definition probe :: request where
  "probe = \<lparr>meth = GET, path = ''/health'', args = [(''verbose'', ''1'')],
            headers = [''HTTP_ACCEPT'' \<mapsto> ''application/json''], data = ''ping''\<rparr>"

definition upgrade_request :: "string \<Rightarrow> request" where
  "upgrade_request p =
     \<lparr>meth = GET, path = p, args = [],
      headers = [''HTTP_CONNECTION'' \<mapsto> ''Upgrade'', ''HTTP_UPGRADE'' \<mapsto> ''websocket''],
      data = []\<rparr>"

section \<open>Properties\<close>

subsection \<open>Auxiliary facts\<close>

lemma basename_static: "basename (path_join root ''static'') = ''static''"
proof (cases root rule: rev_cases)
  case Nil
  then show ?thesis by (simp add: basename_def path_join_def)
next
  case (snoc ys y)
  then show ?thesis by (simp add: basename_def path_join_def)
qed

lemma static_url_path_static:
  "static_url_path \<lparr>root_path = root, template_folder = tf, static_folder = Some ''static''\<rparr>
     = Some ''/static''"
  by (simp add: static_url_path_def static_dir_def basename_static rstrip_slash_def)

lemma create_app_eq:
  "create_app root =
     \<lparr>cfg = \<lparr>root_path = root, template_folder = Some ''templates'',
              static_folder = Some ''static''\<rparr>,
      url_map =
        [\<lparr>pattern = ''/static/<path:filename>'', methods = {HEAD, OPTIONS, GET},
          endpoint = ''static'', provide_automatic_options = True, websocket = False\<rparr>,
         \<lparr>pattern = ''/health'', methods = {HEAD, OPTIONS, GET},
          endpoint = ''health'', provide_automatic_options = True, websocket = False\<rparr>,
         \<lparr>pattern = ''/'', methods = {HEAD, OPTIONS, GET},
          endpoint = ''index'', provide_automatic_options = True, websocket = False\<rparr>],
      view_functions =
        [''static'' \<mapsto> static_view, ''health'' \<mapsto> no_args health,
         ''index'' \<mapsto> no_args index],
      got_first_request = False\<rparr>"
  by (simp add: create_app_def Flask_def static_url_path_static app_get_def
      add_url_rule_def Let_def)

lemma cfg_create_app:
  "cfg (create_app root) = \<lparr>root_path = root, template_folder = Some ''templates'',
              static_folder = Some ''static''\<rparr>"
  by (simp add: create_app_eq)

lemma view_functions_create_app:
  "view_functions (create_app root) ''health'' = Some (no_args health)"
  "view_functions (create_app root) ''index'' = Some (no_args index)"
  "view_functions (create_app root) ''static'' = Some static_view"
  by (simp_all add: create_app_eq)

lemma match_health: "match_rule ''/health'' p = (if p = ''/health'' then Some [] else None)"
  by (simp add: match_rule_def)

lemma match_index: "match_rule ''/'' p = (if p = ''/'' then Some [] else None)"
  by (simp add: match_rule_def)

lemma match_static:
  "match_rule ''/static/<path:filename>'' p =
     (if take 8 p = ''/static/'' \<and> drop 8 p \<noteq> [] \<and> hd (drop 8 p) \<noteq> CHR ''/''
         \<and> CHR 0x0A \<notin> set (tl (drop 8 p))
      then Some [(''filename'', drop 8 p)] else None)"
  by (simp add: match_rule_def Let_def eval_nat_numeral)

lemma match_static_not_fixed:
  "match_rule ''/static/<path:filename>'' p \<noteq> None \<Longrightarrow>
     p \<noteq> ''/health'' \<and> p \<noteq> ''/'' \<and> p \<noteq> []"
  by (auto simp add: match_static split: if_splits)

lemma slash_rules:
  "slash_rule ''/static/<path:filename>'' p = False"
  "slash_rule ''/health'' p = False"
  "slash_rule ''/'' p = (p = [])"
  by (auto simp add: slash_rule_def append_eq_Cons_conv Cons_eq_append_conv)

lemma merge_slashes_Nil: "merge_slashes p = [] \<longleftrightarrow> p = []"
  by (induction p rule: merge_slashes.induct) auto

lemma path_part_Nil: "path_part p = [] \<longleftrightarrow> p = []"
  by (simp add: path_part_def)

lemma try_rules_create_app:
  "try_rules (url_map (create_app root)) m ws p h w =
     (if match_rule ''/static/<path:filename>'' p \<noteq> None then
        (if m \<notin> {GET, HEAD, OPTIONS} then NoMatch (h \<union> {GET, HEAD, OPTIONS}) w
         else if ws then NoMatch h True
         else Match \<lparr>pattern = ''/static/<path:filename>'', methods = {HEAD, OPTIONS, GET},
                      endpoint = ''static'', provide_automatic_options = True,
                      websocket = False\<rparr> [(''filename'', drop 8 p)])
      else if p = ''/health'' then
        (if m \<notin> {GET, HEAD, OPTIONS} then NoMatch (h \<union> {GET, HEAD, OPTIONS}) w
         else if ws then NoMatch h True
         else Match \<lparr>pattern = ''/health'', methods = {HEAD, OPTIONS, GET},
                      endpoint = ''health'', provide_automatic_options = True,
                      websocket = False\<rparr> [])
      else if p = ''/'' then
        (if m \<notin> {GET, HEAD, OPTIONS} then NoMatch (h \<union> {GET, HEAD, OPTIONS}) w
         else if ws then NoMatch h True
         else Match \<lparr>pattern = ''/'', methods = {HEAD, OPTIONS, GET},
                      endpoint = ''index'', provide_automatic_options = True,
                      websocket = False\<rparr> [])
      else if p = [] \<and> \<not> ws \<and> m \<in> {GET, HEAD, OPTIONS} then SlashRequired
      else NoMatch h w)"
proof (cases "match_rule ''/static/<path:filename>'' p")
  case None
  then show ?thesis
    by (auto simp add: create_app_eq match_health match_index slash_rules)
next
  case (Some vs)
  then have "p \<noteq> ''/health'' \<and> p \<noteq> ''/'' \<and> p \<noteq> []"
    using match_static_not_fixed [of p] by simp
  moreover from Some have "vs = [(''filename'', drop 8 p)]"
    by (simp add: match_static split: if_splits)
  ultimately show ?thesis using Some
    by (auto simp add: create_app_eq match_health match_index slash_rules
        insert_commute Un_commute)
qed

lemma url_match_Inr:
  assumes "url_match rules m ws pi = Inr (r, vs)"
  shows "try_rules rules m ws (path_part pi) {} False = Match r vs"
  using assms
  by (auto simp add: url_match_def Let_def split: matched.splits if_splits)

lemma url_match_health:
  "url_match (url_map (create_app root)) m ws ''/health'' =
     (if m \<notin> {GET, HEAD, OPTIONS} then Inl (MethodNotAllowed {GET, HEAD, OPTIONS})
      else if ws then Inl WebsocketMismatch
      else Inr (\<lparr>pattern = ''/health'', methods = {HEAD, OPTIONS, GET},
                  endpoint = ''health'', provide_automatic_options = True,
                  websocket = False\<rparr>, []))"
  by (simp add: url_match_def path_part_def try_rules_create_app match_static)

lemma url_match_index:
  "url_match (url_map (create_app root)) m ws ''/'' =
     (if m \<notin> {GET, HEAD, OPTIONS} then Inl (MethodNotAllowed {GET, HEAD, OPTIONS})
      else if ws then Inl WebsocketMismatch
      else Inr (\<lparr>pattern = ''/'', methods = {HEAD, OPTIONS, GET},
                  endpoint = ''index'', provide_automatic_options = True,
                  websocket = False\<rparr>, []))"
  by (simp add: url_match_def path_part_def try_rules_create_app match_static)

lemma is_websocket_upgrade_request: "is_websocket (upgrade_request p)"
  by (simp add: is_websocket_def upgrade_request_def header_def lower_def lower_char_def
      strip_def isspace_def)

lemma not_websocket_request_of: "\<not> is_websocket (request_of m p)"
  by (simp add: is_websocket_def request_of_def header_def lower_def)

lemma not_websocket_probe: "\<not> is_websocket probe"
  by (simp add: is_websocket_def probe_def header_def lower_def)

lemma dispatch_request_got_first [simp]:
  "dispatch_request e (a\<lparr>got_first_request := g\<rparr>) rq = dispatch_request e a rq"
  by (simp add: dispatch_request_def make_default_options_response_def
      cong: sum.case_cong prod.case_cong option.case_cong if_cong)

lemma next_app_wsgi_app [simp]:
  "next_app (wsgi_app e a rq) = a\<lparr>got_first_request := True\<rparr>"
  by (simp add: wsgi_app_def full_dispatch_request_def Let_def)

lemma serve_all_eq:
  "serve_all e a rqs = (if rqs = [] then a else a\<lparr>got_first_request := True\<rparr>)"
  by (induction rqs arbitrary: a) auto

lemma wsgi_app_got_first:
  "resp (wsgi_app e (a\<lparr>got_first_request := g\<rparr>) rq) = resp (wsgi_app e a rq)"
  "invoked (wsgi_app e (a\<lparr>got_first_request := g\<rparr>) rq) = invoked (wsgi_app e a rq)"
  by (simp_all add: wsgi_app_def full_dispatch_request_def Let_def)

lemma wsgi_app_serve_all:
  "resp (wsgi_app e (serve_all e' a rqs) rq) = resp (wsgi_app e a rq)"
  "invoked (wsgi_app e (serve_all e' a rqs) rq) = invoked (wsgi_app e a rq)"
  by (simp_all add: serve_all_eq wsgi_app_got_first)

lemma routes_serve_all:
  "url_map (serve_all e a rqs) = url_map a"
  "view_functions (serve_all e a rqs) = view_functions a"
  by (simp_all add: serve_all_eq)

lemma invoked_wsgi_app: "invoked (wsgi_app e a rq) = fst (dispatch_request e a rq)"
  by (simp add: wsgi_app_def full_dispatch_request_def Let_def)

lemma health_invoked:
  assumes "fst (dispatch_request e (create_app root) rq) = Some ''health''"
  shows "snd (dispatch_request e (create_app root) rq) = Inr (Str ''ok'')"
proof (cases "url_match (url_map (create_app root)) (meth rq) (is_websocket rq) (path rq)")
  case (Inl ex)
  with assms show ?thesis by (simp add: dispatch_request_def)
next
  case (Inr x)
  obtain r vs where x: "x = (r, vs)" by (cases x)
  with Inr have "try_rules (url_map (create_app root)) (meth rq) (is_websocket rq)
      (path_part (path rq)) {} False = Match r vs"
    by (simp add: url_match_Inr)
  then have cases: "endpoint r = ''static'' \<or> (endpoint r = ''health'' \<and> vs = []) \<or>
      endpoint r = ''index''"
    by (auto simp add: try_rules_create_app split: if_splits)
  from assms Inr x have "endpoint r = ''health''"
    by (auto simp add: dispatch_request_def split: if_splits option.splits)
  with cases have "vs = []" by auto
  with assms Inr x \<open>endpoint r = ''health''\<close> show ?thesis
    by (auto simp add: dispatch_request_def view_functions_create_app no_args_def health_def
        split: if_splits)
qed

subsection \<open>Auxiliary facts about the heap\<close>

lemma wf_empty: "well_formed empty_heap"
  by (simp add: well_formed_def empty_heap_def)

lemma wf_refs:
  assumes "well_formed h" and "r < length (app_objs h)"
  shows "url_map_ref (app_objs h ! r) < length (url_maps h)"
    and "view_functions_ref (app_objs h ! r) < length (view_dicts h)"
  using assms by (simp_all add: well_formed_def list_all_length)

lemma wf_distinct:
  assumes "well_formed h" and "r < length (app_objs h)" and "r' < length (app_objs h)" and "r \<noteq> r'"
  shows "url_map_ref (app_objs h ! r) \<noteq> url_map_ref (app_objs h ! r')"
    and "view_functions_ref (app_objs h ! r) \<noteq> view_functions_ref (app_objs h ! r')"
proof -
  from assms(1) have d1: "distinct (map url_map_ref (app_objs h))"
    and d2: "distinct (map view_functions_ref (app_objs h))"
    by (simp_all add: well_formed_def)
  from d1 assms(2,3,4) show "url_map_ref (app_objs h ! r) \<noteq> url_map_ref (app_objs h ! r')"
    using nth_eq_iff_index_eq [of "map url_map_ref (app_objs h)" r r'] by simp
  from d2 assms(2,3,4)
  show "view_functions_ref (app_objs h ! r) \<noteq> view_functions_ref (app_objs h ! r')"
    using nth_eq_iff_index_eq [of "map view_functions_ref (app_objs h)" r r'] by simp
qed

lemma load_Some_iff:
  assumes "well_formed h"
  shows "(\<exists>a. load h r = Some a) \<longleftrightarrow> r < length (app_objs h)"
  using assms wf_refs [of h r] by (auto simp add: load_def Let_def)

lemma new_Flask_props:
  assumes "well_formed h" and "new_Flask root tf sf h = (r, h')"
  shows "r = length (app_objs h)" and "length (app_objs h') = Suc (length (app_objs h))"
    and "well_formed h'" and "load h' r = Some (Flask root tf sf)"
    and "r' < length (app_objs h) \<Longrightarrow> load h' r' = load h r'"
proof -
  from assms(2) have r: "r = length (app_objs h)"
    and h': "h' = \<lparr>app_objs = app_objs h @
             [\<lparr>obj_cfg = cfg (Flask root tf sf), url_map_ref = length (url_maps h),
               view_functions_ref = length (view_dicts h),
               obj_got_first_request = got_first_request (Flask root tf sf)\<rparr>],
           url_maps = url_maps h @ [url_map (Flask root tf sf)],
           view_dicts = view_dicts h @ [view_functions (Flask root tf sf)]\<rparr>"
    by (simp_all add: new_Flask_def Let_def)
  show "r = length (app_objs h)" by (rule r)
  from h' show "length (app_objs h') = Suc (length (app_objs h))" by simp
  from assms(1) h' show "well_formed h'"
    by (auto simp add: well_formed_def list_all_iff)
  from r h' show "load h' r = Some (Flask root tf sf)"
    by (simp add: load_def Let_def)
  show "load h' r' = load h r'" if "r' < length (app_objs h)"
    using that h' wf_refs [OF assms(1) that]
    by (simp add: load_def Let_def nth_append)
qed

lemma mutate_props:
  assumes "well_formed h" and "load h r = Some a"
  shows "length (app_objs (mutate r f h)) = length (app_objs h)"
    and "well_formed (mutate r f h)"
    and "load (mutate r f h) r = Some (f a)"
    and "r' \<noteq> r \<Longrightarrow> load (mutate r f h) r' = load h r'"
proof -
  from assms have lt: "r < length (app_objs h)"
    using load_Some_iff [of h r] by auto
  note refs = wf_refs [OF assms(1) lt]
  from assms(2) lt refs have a: "a = \<lparr>cfg = obj_cfg (app_objs h ! r),
      url_map = url_maps h ! url_map_ref (app_objs h ! r),
      view_functions = view_dicts h ! view_functions_ref (app_objs h ! r),
      got_first_request = obj_got_first_request (app_objs h ! r)\<rparr>"
    by (simp add: load_def Let_def)
  let ?ob = "app_objs h ! r"
  have u: "mutate r f h =
      \<lparr>app_objs = (app_objs h)
          [r := ?ob\<lparr>obj_cfg := cfg (f a), obj_got_first_request := got_first_request (f a)\<rparr>],
       url_maps = (url_maps h)[url_map_ref ?ob := url_map (f a)],
       view_dicts = (view_dicts h)[view_functions_ref ?ob := view_functions (f a)]\<rparr>"
    using assms(2) by (simp add: mutate_def Let_def)
  show "length (app_objs (mutate r f h)) = length (app_objs h)"
    by (simp add: u)
  have same_refs: "map url_map_ref (app_objs (mutate r f h)) = map url_map_ref (app_objs h)"
    "map view_functions_ref (app_objs (mutate r f h)) = map view_functions_ref (app_objs h)"
    using lt by (simp_all add: u map_update list_update_same_conv)
  from assms(1) lt show "well_formed (mutate r f h)"
    unfolding well_formed_def same_refs
    by (auto simp add: u list_all_length nth_list_update)
  from lt refs show "load (mutate r f h) r = Some (f a)"
    by (simp add: u load_def Let_def)
  show "load (mutate r f h) r' = load h r'" if "r' \<noteq> r"
  proof (cases "r' < length (app_objs h)")
    case False
    then show ?thesis by (simp add: u load_def)
  next
    case True
    from wf_distinct [OF assms(1) True lt that] wf_refs [OF assms(1) True] True that
    show ?thesis
      by (simp add: u load_def Let_def)
  qed
qed

lemma create_app_in_props:
  assumes "well_formed h" and "create_app_in root h = (r, h')"
  shows "r = length (app_objs h)" and "length (app_objs h') = Suc (length (app_objs h))"
    and "well_formed h'" and "load h' r = Some (create_app root)"
    and "r' < length (app_objs h) \<Longrightarrow> load h' r' = load h r'"
proof -
  obtain h1 where nf: "new_Flask root (Some ''templates'') (Some ''static'') h = (r, h1)"
    and h': "h' = mutate r (app_get ''/'' ''index'' index)
                   (mutate r (app_get ''/health'' ''health'' health) h1)"
    using assms(2)
    by (cases "new_Flask root (Some ''templates'') (Some ''static'') h")
       (simp add: create_app_in_def Let_def)
  let ?a0 = "Flask root (Some ''templates'') (Some ''static'')"
  let ?a1 = "app_get ''/health'' ''health'' health ?a0"
  let ?h2 = "mutate r (app_get ''/health'' ''health'' health) h1"
  note n = new_Flask_props [OF assms(1) nf]
  note u1 = mutate_props [OF n(3) n(4), where f = "app_get ''/health'' ''health'' health"]
  note u2 = mutate_props [OF u1(2) u1(3), where f = "app_get ''/'' ''index'' index"]
  show "r = length (app_objs h)" by (rule n(1))
  show "length (app_objs h') = Suc (length (app_objs h))"
    by (simp add: h' u2(1) u1(1) n(2))
  show "well_formed h'" by (simp add: h' u2(2))
  show "load h' r = Some (create_app root)"
    by (simp add: h' u2(3) create_app_def Let_def)
  show "load h' r' = load h r'" if "r' < length (app_objs h)"
  proof -
    from that n(1) have "r' \<noteq> r" by simp
    then show ?thesis by (simp add: h' u2(4) u1(4) n(5) that)
  qed
qed

lemma step_props:
  assumes "well_formed h"
  shows "well_formed (step e root ev h)"
    and "length (app_objs h) \<le> length (app_objs (step e root ev h))"
    and "load h r = Some a \<Longrightarrow>
         load (step e root ev h) r = Some (serve_all e a (own r [ev]))"
proof -
  show "well_formed (step e root ev h)"
  proof (cases ev)
    case Create
    then show ?thesis
      using create_app_in_props(3) [OF assms, of root "fst (create_app_in root h)"
          "snd (create_app_in root h)"] by simp
  next
    case (Serve r' rq)
    show ?thesis
    proof (cases "load h r'")
      case None
      with Serve assms show ?thesis by (simp add: mutate_def)
    next
      case (Some b)
      with Serve show ?thesis using mutate_props(2) [OF assms Some] by simp
    qed
  qed
  show "length (app_objs h) \<le> length (app_objs (step e root ev h))"
  proof (cases ev)
    case Create
    then show ?thesis
      using create_app_in_props(2) [OF assms, of root "fst (create_app_in root h)"
          "snd (create_app_in root h)"] by simp
  next
    case (Serve r' rq)
    show ?thesis
    proof (cases "load h r'")
      case None
      with Serve show ?thesis by (simp add: mutate_def)
    next
      case (Some b)
      with Serve show ?thesis using mutate_props(1) [OF assms Some] by simp
    qed
  qed
  show "load (step e root ev h) r = Some (serve_all e a (own r [ev]))" if l: "load h r = Some a"
  proof (cases ev)
    case Create
    from l assms have "r < length (app_objs h)"
      using load_Some_iff [of h r] by auto
    with Create l show ?thesis
      using create_app_in_props(5) [OF assms, of root "fst (create_app_in root h)"
          "snd (create_app_in root h)" r] by simp
  next
    case (Serve r' rq)
    show ?thesis
    proof (cases "r' = r")
      case True
      with Serve l show ?thesis
        using mutate_props(3) [OF assms l] by simp
    next
      case False
      show ?thesis
      proof (cases "load h r'")
        case None
        with Serve False l show ?thesis by (simp add: mutate_def)
      next
        case (Some b)
        with Serve False l show ?thesis
          using mutate_props(4) [OF assms Some, of r] by simp
      qed
    qed
  qed
qed

lemma own_Cons: "serve_all e (serve_all e a (own r [ev])) (own r evs) = serve_all e a (own r (ev # evs))"
  by (cases ev) simp_all

lemma wf_run: "well_formed h \<Longrightarrow> well_formed (run e root evs h)"
  by (induction evs arbitrary: h) (simp_all add: step_props(1))

lemma length_run: "well_formed h \<Longrightarrow> length (app_objs h) \<le> length (app_objs (run e root evs h))"
proof (induction evs arbitrary: h)
  case Nil
  show ?case by simp
next
  case (Cons ev evs)
  from Cons.prems have "length (app_objs h) \<le> length (app_objs (step e root ev h))"
    by (rule step_props(2))
  also from Cons.prems have "\<dots> \<le> length (app_objs (run e root evs (step e root ev h)))"
    by (intro Cons.IH step_props(1))
  finally show ?case by simp
qed

lemma load_run:
  "well_formed h \<Longrightarrow> load h r = Some a \<Longrightarrow>
   load (run e root evs h) r = Some (serve_all e a (own r evs))"
proof (induction evs arbitrary: h a)
  case Nil
  then show ?case by simp
next
  case (Cons ev evs)
  from Cons.prems have "well_formed (step e root ev h)"
    and "load (step e root ev h) r = Some (serve_all e a (own r [ev]))"
    by (simp_all add: step_props)
  then have "load (run e root evs (step e root ev h)) r =
      Some (serve_all e (serve_all e a (own r [ev])) (own r evs))"
    by (rule Cons.IH)
  then show ?case by (simp add: own_Cons)
qed

subsection \<open>The health endpoint\<close>

text \<open>
  C1. Every GET request to \<open>/health\<close> that does not ask for a websocket, on an
  application made by the factory, at any time in the application's life and whatever
  its query parameters, other headers and body are, is answered with status 200 and
  the body \<open>ok\<close>.
\<close>

theorem health_get_ok:
  assumes "meth rq = GET" and "path rq = ''/health''" and "\<not> is_websocket rq"
  shows "status (resp (wsgi_app e (serve_all e (create_app root) rqs) rq)) = 200 \<and>
         body (resp (wsgi_app e (serve_all e (create_app root) rqs) rq)) = ''ok''"
  unfolding wsgi_app_serve_all using assms
  by (simp add: wsgi_app_def full_dispatch_request_def Let_def dispatch_request_def
      url_match_health view_functions_create_app no_args_def health_def make_response_def)

theorem health_get_ok_witness:
  "meth probe = GET \<and> path probe = ''/health'' \<and> \<not> is_websocket probe \<and>
   args probe \<noteq> [] \<and> headers probe \<noteq> Map.empty \<and> data probe \<noteq> [] \<and>
   status (resp (wsgi_app bare_env
     (serve_all bare_env (create_app ''/srv/app'') [request_of POST ''/'']) probe)) = 200 \<and>
   body (resp (wsgi_app bare_env
     (serve_all bare_env (create_app ''/srv/app'') [request_of POST ''/'']) probe)) = ''ok''"
proof -
  have "headers probe ''HTTP_ACCEPT'' \<noteq> None" by (simp add: probe_def)
  then have "headers probe \<noteq> Map.empty" by auto
  then show ?thesis
    using health_get_ok [of probe bare_env "''/srv/app''" "[request_of POST ''/'']"]
      not_websocket_probe
    by (simp add: probe_def)
qed

text \<open>
  C1 as the specification words it, whatever headers are supplied, fails at a GET request
  to \<open>/health\<close> that asks for a websocket (\<open>Connection: Upgrade\<close> with
  \<open>Upgrade: websocket\<close>): no rule of the application is a websocket rule, so the
  answer has status 400 and \<open>health\<close> is not called.
\<close>

theorem health_upgrade_400:
  "meth (upgrade_request ''/health'') = GET \<and> path (upgrade_request ''/health'') = ''/health'' \<and>
   status (resp (wsgi_app bare_env (create_app ''/srv/app'') (upgrade_request ''/health''))) = 400 \<and>
   invoked (wsgi_app bare_env (create_app ''/srv/app'') (upgrade_request ''/health'')) = None"
  using is_websocket_upgrade_request [of "''/health''"]
  by (simp add: wsgi_app_def full_dispatch_request_def Let_def dispatch_request_def
      url_match_health handle_exception_def upgrade_request_def)

text \<open>
  C10. The function \<open>health\<close> is constant: it returns the same result in every
  environment, under every configuration and for every request. Whenever two
  requests, on any two applications made by the factory, in any two environments and
  after any two histories, are dispatched to \<open>health\<close>, the two calls return the
  same result, the string \<open>ok\<close>, and the framework makes the same response of it;
  what is sent differs only in that the answer to a HEAD request goes without the body.
\<close>

theorem health_constant:
  assumes "invoked (wsgi_app e1 (serve_all e1 (create_app root1) rqs1) rq1) = Some ''health''"
    and "invoked (wsgi_app e2 (serve_all e2 (create_app root2) rqs2) rq2) = Some ''health''"
  shows "health e1 c rq1 = health e2 c' rq2 \<and>
         snd (dispatch_request e1 (serve_all e1 (create_app root1) rqs1) rq1) = Inr (Str ''ok'') \<and>
         snd (dispatch_request e1 (serve_all e1 (create_app root1) rqs1) rq1) =
         snd (dispatch_request e2 (serve_all e2 (create_app root2) rqs2) rq2) \<and>
         resp (full_dispatch_request e1 (serve_all e1 (create_app root1) rqs1) rq1) =
         resp (full_dispatch_request e2 (serve_all e2 (create_app root2) rqs2) rq2) \<and>
         resp (wsgi_app e1 (serve_all e1 (create_app root1) rqs1) rq1) =
           \<lparr>status = 200, content_type = html, allow = {},
            body = (if meth rq1 = HEAD then [] else ''ok'')\<rparr> \<and>
         resp (wsgi_app e2 (serve_all e2 (create_app root2) rqs2) rq2) =
           \<lparr>status = 200, content_type = html, allow = {},
            body = (if meth rq2 = HEAD then [] else ''ok'')\<rparr>"
proof -
  from assms(1) have "fst (dispatch_request e1 (create_app root1) rq1) = Some ''health''"
    by (simp add: invoked_wsgi_app serve_all_eq split: if_splits)
  then have r1: "snd (dispatch_request e1 (create_app root1) rq1) = Inr (Str ''ok'')"
    by (rule health_invoked)
  from assms(2) have "fst (dispatch_request e2 (create_app root2) rq2) = Some ''health''"
    by (simp add: invoked_wsgi_app serve_all_eq split: if_splits)
  then have r2: "snd (dispatch_request e2 (create_app root2) rq2) = Inr (Str ''ok'')"
    by (rule health_invoked)
  from r1 r2 show ?thesis
    by (simp add: health_def serve_all_eq wsgi_app_def full_dispatch_request_def Let_def
        make_response_def)
qed

theorem health_constant_witness:
  "invoked (wsgi_app demo_env (serve_all demo_env (create_app ''/srv/app'') []) probe)
     = Some ''health'' \<and>
   invoked (wsgi_app bare_env
     (serve_all bare_env (create_app ''/opt/site'') [request_of POST ''/''])
     (request_of HEAD ''//health'')) = Some ''health'' \<and>
   snd (dispatch_request demo_env (serve_all demo_env (create_app ''/srv/app'') []) probe) =
   snd (dispatch_request bare_env
     (serve_all bare_env (create_app ''/opt/site'') [request_of POST ''/''])
     (request_of HEAD ''//health'')) \<and>
   body (resp (wsgi_app demo_env (serve_all demo_env (create_app ''/srv/app'') []) probe))
     = ''ok'' \<and>
   body (resp (wsgi_app bare_env
     (serve_all bare_env (create_app ''/opt/site'') [request_of POST ''/''])
     (request_of HEAD ''//health''))) = []"
proof -
  have a: "invoked (wsgi_app demo_env (serve_all demo_env (create_app ''/srv/app'') []) probe)
     = Some ''health''"
    using not_websocket_probe
    by (simp add: invoked_wsgi_app dispatch_request_def probe_def url_match_health
        view_functions_create_app)
  have b: "invoked (wsgi_app bare_env
     (serve_all bare_env (create_app ''/opt/site'') [request_of POST ''/''])
     (request_of HEAD ''//health'')) = Some ''health''"
    using not_websocket_request_of [of HEAD "''//health''"]
    by (simp add: wsgi_app_serve_all invoked_wsgi_app dispatch_request_def request_of_def
        url_match_def path_part_def try_rules_create_app match_static
        view_functions_create_app)
  show ?thesis
    using a b health_constant [OF a b, where c = "cfg (create_app ''/srv/app'')"
        and c' = "cfg (create_app ''/opt/site'')"]
    by (auto simp add: serve_all_eq wsgi_app_def full_dispatch_request_def Let_def
        make_response_def probe_def request_of_def)
qed

text \<open>
  C8. A GET request to \<open>/health\<close> is answered with the content type that the
  framework gives to a view function's string, \<open>text/html; charset=utf-8\<close>: the view
  function returns a bare string and sets no content type of its own.
\<close>

theorem health_content_type_html:
  assumes "meth rq = GET" and "path rq = ''/health''"
  shows "content_type (resp (wsgi_app e (serve_all e (create_app root) rqs) rq))
           = ''text/html; charset=utf-8''"
  unfolding wsgi_app_serve_all using assms
  by (simp add: wsgi_app_def full_dispatch_request_def Let_def dispatch_request_def
      url_match_health view_functions_create_app no_args_def health_def make_response_def
      handle_exception_def html_def)

theorem health_content_type_html_witness:
  "meth probe = GET \<and> path probe = ''/health'' \<and>
   content_type (resp (wsgi_app demo_env (serve_all demo_env (create_app ''/srv/app'') []) probe))
           = ''text/html; charset=utf-8''"
  using health_content_type_html [of probe demo_env "''/srv/app''" "[]"]
  by (simp add: probe_def)

text \<open>
  C8 as the specification words it, a plain-text content type, fails: the content type
  of the response to the sample GET request to \<open>/health\<close> is not plain text.
\<close>

theorem health_content_type_not_plain:
  "meth probe = GET \<and> path probe = ''/health'' \<and>
   \<not> plain_text (content_type (resp (wsgi_app demo_env (create_app ''/srv/app'') probe)))"
  using not_websocket_probe
  by (simp add: probe_def wsgi_app_def full_dispatch_request_def Let_def dispatch_request_def
      url_match_health view_functions_create_app no_args_def health_def make_response_def
      html_def plain_text_def)

subsection \<open>The index endpoint\<close>

text \<open>
  C2. When the template engine renders \<open>main.html\<close>, found on the search path
  \<open>templates\<close> under the root path, to the text \<open>s\<close>, every GET request to \<open>/\<close>
  that does not ask for a websocket is answered with status 200 and the body \<open>s\<close>.
\<close>

theorem index_get_renders:
  assumes "meth rq = GET" and "path rq = ''/''" and "\<not> is_websocket rq"
    and "render e (path_join root ''templates'') ''main.html'' rq = Rendered s"
  shows "status (resp (wsgi_app e (serve_all e (create_app root) rqs) rq)) = 200 \<and>
         body (resp (wsgi_app e (serve_all e (create_app root) rqs) rq)) = s"
  unfolding wsgi_app_serve_all using assms
  by (simp add: wsgi_app_def full_dispatch_request_def Let_def dispatch_request_def
      url_match_index view_functions_create_app no_args_def index_def render_template_def
      template_dir_def cfg_create_app make_response_def)

theorem index_get_renders_witness:
  "meth (request_of GET ''/'') = GET \<and> path (request_of GET ''/'') = ''/'' \<and>
   \<not> is_websocket (request_of GET ''/'') \<and>
   render demo_env (path_join ''/srv/app'' ''templates'') ''main.html'' (request_of GET ''/'')
     = Rendered ''<h1>Welcome</h1>'' \<and>
   status (resp (wsgi_app demo_env (serve_all demo_env (create_app ''/srv/app'') [])
     (request_of GET ''/''))) = 200 \<and>
   body (resp (wsgi_app demo_env (serve_all demo_env (create_app ''/srv/app'') [])
     (request_of GET ''/''))) = ''<h1>Welcome</h1>''"
  using index_get_renders [of "request_of GET ''/''" demo_env "''/srv/app''"
      "''<h1>Welcome</h1>''" "[]"] not_websocket_request_of [of GET "''/''"]
  by (simp add: request_of_def demo_env_def path_join_def)

text \<open>
  C2 as the specification words it, for every GET request to \<open>/\<close>, fails at a request
  that asks for a websocket: the template would render, but the answer has status 400
  and \<open>index\<close> is not called.
\<close>

theorem index_upgrade_400:
  "meth (upgrade_request ''/'') = GET \<and> path (upgrade_request ''/'') = ''/'' \<and>
   render demo_env (path_join ''/srv/app'' ''templates'') ''main.html'' (upgrade_request ''/'')
     = Rendered ''<h1>Welcome</h1>'' \<and>
   status (resp (wsgi_app demo_env (create_app ''/srv/app'') (upgrade_request ''/''))) = 400 \<and>
   invoked (wsgi_app demo_env (create_app ''/srv/app'') (upgrade_request ''/'')) = None"
  using is_websocket_upgrade_request [of "''/''"]
  by (simp add: wsgi_app_def full_dispatch_request_def Let_def dispatch_request_def
      url_match_index handle_exception_def upgrade_request_def demo_env_def path_join_def)

text \<open>
  C3. When the template engine does not render \<open>main.html\<close> (the template is missing
  or its rendering fails), then for a GET request to \<open>/\<close> that does not ask for a
  websocket \<open>index\<close> is called and raises the very exception that
  \<open>render_template\<close> raised, and the response is the framework's default response
  for status 500.
\<close>

theorem index_failure_propagates:
  assumes "meth rq = GET" and "path rq = ''/''" and "\<not> is_websocket rq"
    and "\<forall>s. render e (path_join root ''templates'') ''main.html'' rq \<noteq> Rendered s"
  shows "\<exists>ex. render_template e (cfg (serve_all e (create_app root) rqs)) rq ''main.html''
               = Inl ex \<and>
           index e (cfg (serve_all e (create_app root) rqs)) rq = Inl ex \<and>
           invoked (wsgi_app e (serve_all e (create_app root) rqs) rq) = Some ''index'' \<and>
           resp (wsgi_app e (serve_all e (create_app root) rqs) rq) =
             \<lparr>status = 500, content_type = html, allow = {}, body = error_page e 500\<rparr>"
proof (cases "render e (path_join root ''templates'') ''main.html'' rq")
  case (Rendered s)
  with assms(4) show ?thesis by simp
next
  case Missing
  with assms(1,2,3) show ?thesis
    unfolding wsgi_app_serve_all
    by (simp add: serve_all_eq wsgi_app_def full_dispatch_request_def Let_def
        dispatch_request_def url_match_index view_functions_create_app no_args_def index_def
        render_template_def template_dir_def cfg_create_app handle_exception_def)
next
  case (Failed msg)
  with assms(1,2,3) show ?thesis
    unfolding wsgi_app_serve_all
    by (simp add: serve_all_eq wsgi_app_def full_dispatch_request_def Let_def
        dispatch_request_def url_match_index view_functions_create_app no_args_def index_def
        render_template_def template_dir_def cfg_create_app handle_exception_def)
qed

theorem index_failure_propagates_witness:
  "meth (request_of GET ''/'') = GET \<and> path (request_of GET ''/'') = ''/'' \<and>
   \<not> is_websocket (request_of GET ''/'') \<and>
   render bare_env (path_join ''/srv/app'' ''templates'') ''main.html'' (request_of GET ''/'')
     = Missing \<and>
   index bare_env (cfg (serve_all bare_env (create_app ''/srv/app'') [])) (request_of GET ''/'')
     = Inl (TemplateNotFound ''main.html'') \<and>
   invoked (wsgi_app bare_env (serve_all bare_env (create_app ''/srv/app'') [])
     (request_of GET ''/'')) = Some ''index'' \<and>
   status (resp (wsgi_app bare_env (serve_all bare_env (create_app ''/srv/app'') [])
     (request_of GET ''/''))) = 500"
  using index_failure_propagates [of "request_of GET ''/''" bare_env "''/srv/app''" "[]"]
    not_websocket_request_of [of GET "''/''"]
  by (auto simp add: request_of_def bare_env_def render_template_def template_dir_def
      cfg_create_app)

text \<open>
  C3 as the specification words it, for every GET request to \<open>/\<close>, fails at a request
  that asks for a websocket while the template is missing: \<open>index\<close> is not called and
  the status is 400, not 500.
\<close>

theorem index_failure_upgrade_400:
  "meth (upgrade_request ''/'') = GET \<and> path (upgrade_request ''/'') = ''/'' \<and>
   render bare_env (path_join ''/srv/app'' ''templates'') ''main.html'' (upgrade_request ''/'')
     = Missing \<and>
   status (resp (wsgi_app bare_env (create_app ''/srv/app'') (upgrade_request ''/''))) \<noteq> 500 \<and>
   invoked (wsgi_app bare_env (create_app ''/srv/app'') (upgrade_request ''/'')) = None"
  using is_websocket_upgrade_request [of "''/''"]
  by (simp add: wsgi_app_def full_dispatch_request_def Let_def dispatch_request_def
      url_match_index handle_exception_def upgrade_request_def bare_env_def)

subsection \<open>Methods and paths without a view function\<close>

text \<open>
  C5. A request to \<open>/health\<close> or \<open>/\<close> whose method is none of GET, HEAD and
  OPTIONS (POST, for one) is answered with status 405, with the three methods in the
  \<open>Allow\<close> header, and no view function is called.
\<close>

theorem other_methods_405:
  assumes "path rq = ''/health'' \<or> path rq = ''/''"
    and "meth rq \<noteq> GET" and "meth rq \<noteq> HEAD" and "meth rq \<noteq> OPTIONS"
  shows "status (resp (wsgi_app e (serve_all e (create_app root) rqs) rq)) = 405 \<and>
         allow (resp (wsgi_app e (serve_all e (create_app root) rqs) rq)) = {GET, HEAD, OPTIONS} \<and>
         invoked (wsgi_app e (serve_all e (create_app root) rqs) rq) = None"
  unfolding wsgi_app_serve_all using assms
  by (auto simp add: wsgi_app_def full_dispatch_request_def Let_def dispatch_request_def
      url_match_health url_match_index handle_exception_def)

theorem other_methods_405_witness:
  "(path (request_of POST ''/health'') = ''/health'' \<or> path (request_of POST ''/health'') = ''/'') \<and>
   meth (request_of POST ''/health'') \<noteq> GET \<and> meth (request_of POST ''/health'') \<noteq> HEAD \<and>
   meth (request_of POST ''/health'') \<noteq> OPTIONS \<and>
   status (resp (wsgi_app demo_env (serve_all demo_env (create_app ''/srv/app'') [])
     (request_of POST ''/health''))) = 405 \<and>
   invoked (wsgi_app demo_env (serve_all demo_env (create_app ''/srv/app'') [])
     (request_of POST ''/health'')) = None"
  using other_methods_405 [of "request_of POST ''/health''" demo_env "''/srv/app''" "[]"]
  by (simp add: request_of_def)

text \<open>
  C5 as the specification words it, for every method other than GET, fails at HEAD:
  the rule that \<open>app.get\<close> registers also has HEAD and OPTIONS, so a HEAD request to
  \<open>/health\<close> calls \<open>health\<close> and its status is not 405.
\<close>

theorem head_health_not_405:
  "meth (request_of HEAD ''/health'') \<noteq> GET \<and>
   path (request_of HEAD ''/health'') = ''/health'' \<and>
   status (resp (wsgi_app bare_env (create_app ''/srv/app'') (request_of HEAD ''/health''))) \<noteq> 405 \<and>
   invoked (wsgi_app bare_env (create_app ''/srv/app'') (request_of HEAD ''/health''))
     = Some ''health''"
  using not_websocket_request_of [of HEAD "''/health''"]
  by (simp add: request_of_def wsgi_app_def full_dispatch_request_def Let_def
      dispatch_request_def url_match_health view_functions_create_app no_args_def
      health_def make_response_def)

text \<open>
  C6. A request whose path is not empty and, both with its leading slashes reduced to
  one and with its slashes then merged, is neither \<open>/health\<close> nor \<open>/\<close> and is not
  matched by the static route \<open>/static/<path:filename>\<close>, is answered with status
  404, whatever its method, and no view function is called.
\<close>

theorem unrouted_path_404:
  assumes "path rq \<noteq> []"
    and "path_part (path rq) \<noteq> ''/health''" and "path_part (path rq) \<noteq> ''/''"
    and "match_rule ''/static/<path:filename>'' (path_part (path rq)) = None"
    and "merge_slashes (path_part (path rq)) \<noteq> ''/health''"
    and "merge_slashes (path_part (path rq)) \<noteq> ''/''"
    and "match_rule ''/static/<path:filename>'' (merge_slashes (path_part (path rq))) = None"
  shows "status (resp (wsgi_app e (serve_all e (create_app root) rqs) rq)) = 404 \<and>
         invoked (wsgi_app e (serve_all e (create_app root) rqs) rq) = None"
  unfolding wsgi_app_serve_all using assms
  by (simp add: wsgi_app_def full_dispatch_request_def Let_def dispatch_request_def
      url_match_def try_rules_create_app merge_slashes_Nil path_part_Nil handle_exception_def)

theorem unrouted_path_404_witness:
  "path (request_of GET ''/nonexistent'') \<noteq> [] \<and>
   path_part (path (request_of GET ''/nonexistent'')) \<noteq> ''/health'' \<and>
   path_part (path (request_of GET ''/nonexistent'')) \<noteq> ''/'' \<and>
   match_rule ''/static/<path:filename>'' (path_part (path (request_of GET ''/nonexistent'')))
     = None \<and>
   merge_slashes (path_part (path (request_of GET ''/nonexistent''))) \<noteq> ''/health'' \<and>
   merge_slashes (path_part (path (request_of GET ''/nonexistent''))) \<noteq> ''/'' \<and>
   match_rule ''/static/<path:filename>''
     (merge_slashes (path_part (path (request_of GET ''/nonexistent'')))) = None \<and>
   status (resp (wsgi_app demo_env (serve_all demo_env (create_app ''/srv/app'') [])
     (request_of GET ''/nonexistent''))) = 404"
  using unrouted_path_404 [of "request_of GET ''/nonexistent''" demo_env "''/srv/app''" "[]"]
  by (simp add: request_of_def match_static path_part_def)

text \<open>
  C6 as the specification words it, for every path other than \<open>/health\<close> and \<open>/\<close>,
  fails under the static route: a GET request for a file that the static directory has
  is answered with status 200 and the file.
\<close>

theorem static_file_not_404:
  "path (request_of GET ''/static/site.css'') \<noteq> ''/health'' \<and>
   path (request_of GET ''/static/site.css'') \<noteq> ''/'' \<and>
   status (resp (wsgi_app demo_env (create_app ''/srv/app'')
     (request_of GET ''/static/site.css''))) \<noteq> 404 \<and>
   resp (wsgi_app demo_env (create_app ''/srv/app'') (request_of GET ''/static/site.css''))
     = \<lparr>status = 200, content_type = ''text/css; charset=utf-8'', allow = {},
        body = ''body {}''\<rparr>"
  using not_websocket_request_of [of GET "''/static/site.css''"]
  by (simp add: request_of_def wsgi_app_def full_dispatch_request_def Let_def
      dispatch_request_def url_match_def path_part_def try_rules_create_app match_static
      view_functions_create_app static_view_def send_static_file_def static_dir_def
      cfg_create_app path_join_def demo_env_def make_response_def)

subsection \<open>The application that the factory returns\<close>




subsection \<open>Two calls of the factory\<close>

text \<open>
  C4. Take two calls of the factory, after any run of events and with any run of events
  between them (requests to applications in the heap, further calls of the factory).
  They return two different application objects, which refer to two different URL maps
  and two different dictionaries of view functions: the two share no object. Each
  call returns the application that \<open>create_app\<close> describes, so the two URL maps
  hold the same three rules and the two dictionaries the same view functions. In
  every later run, the state of each of the two is what its own earlier state and the
  requests addressed to it alone make it, so nothing that happens to the other object,
  or to any third one, reaches it, and their URL maps stay the same.
\<close>

theorem factory_instances_independent:
  assumes "create_app_in root (run e root evs0 empty_heap) = (r1, h1)"
    and "create_app_in root (run e root evs h1) = (r2, h2)"
  shows "r1 \<noteq> r2 \<and>
         url_map_ref (app_objs h2 ! r1) \<noteq> url_map_ref (app_objs h2 ! r2) \<and>
         view_functions_ref (app_objs h2 ! r1) \<noteq> view_functions_ref (app_objs h2 ! r2) \<and>
         load h1 r1 = Some (create_app root) \<and>
         load h2 r2 = Some (create_app root) \<and>
         load h2 r1 = Some (serve_all e (create_app root) (own r1 evs)) \<and>
         map_option url_map (load h2 r1) = map_option url_map (load h2 r2) \<and>
         map_option view_functions (load h2 r1) = map_option view_functions (load h2 r2) \<and>
         map_option (length \<circ> url_map) (load h2 r2) = Some 3 \<and>
         load (run e root evs' h2) r1 =
           Some (serve_all e (serve_all e (create_app root) (own r1 evs)) (own r1 evs')) \<and>
         load (run e root evs' h2) r2 = Some (serve_all e (create_app root) (own r2 evs')) \<and>
         map_option url_map (load (run e root evs' h2) r1) =
           map_option url_map (load (run e root evs' h2) r2)"
proof -
  let ?h0 = "run e root evs0 empty_heap"
  let ?hm = "run e root evs h1"
  let ?a1 = "serve_all e (create_app root) (own r1 evs)"
  have wf0: "well_formed ?h0" by (simp add: wf_run wf_empty)
  note c1 = create_app_in_props [OF wf0 assms(1)]
  have wfm: "well_formed ?hm" by (simp add: wf_run c1(3))
  have lm: "load ?hm r1 = Some ?a1"
    using c1(3) c1(4) by (rule load_run)
  have "length (app_objs h1) \<le> length (app_objs ?hm)"
    using c1(3) by (rule length_run)
  with c1(1) c1(2) have r1_lt: "r1 < length (app_objs ?hm)" by simp
  note c2 = create_app_in_props [OF wfm assms(2)]
  from r1_lt c2(1) have ne: "r1 \<noteq> r2" by simp
  from r1_lt c2(1) c2(2) have in1: "r1 < length (app_objs h2)"
    and in2: "r2 < length (app_objs h2)" by simp_all
  note d = wf_distinct [OF c2(3) in1 in2 ne]
  from c2(5) [OF r1_lt] lm have l1: "load h2 r1 = Some ?a1" by simp
  have l2: "load h2 r2 = Some (create_app root)" by (rule c2(4))
  have same: "url_map ?a1 = url_map (create_app root)"
    "view_functions ?a1 = view_functions (create_app root)"
    by (simp_all add: routes_serve_all)
  have three: "length (url_map ?a1) = 3"
    by (simp add: routes_serve_all create_app_eq)
  have later1: "load (run e root evs' h2) r1 = Some (serve_all e ?a1 (own r1 evs'))"
    using c2(3) l1 by (rule load_run)
  have later2: "load (run e root evs' h2) r2 = Some (serve_all e (create_app root) (own r2 evs'))"
    using c2(3) l2 by (rule load_run)
  from ne d c1(4) l1 l2 same three later1 later2 show ?thesis
    by (simp add: routes_serve_all)
qed

theorem factory_instances_independent_witness:
  "fst (create_app_in ''/srv/app'' empty_heap) = 0 \<and>
   fst (create_app_in ''/srv/app'' (snd (create_app_in ''/srv/app'' empty_heap))) = 1 \<and>
   load (run demo_env ''/srv/app'' [Serve 0 probe]
          (snd (create_app_in ''/srv/app'' (snd (create_app_in ''/srv/app'' empty_heap))))) 1
     = Some (create_app ''/srv/app'') \<and>
   load (run demo_env ''/srv/app'' [Serve 0 probe]
          (snd (create_app_in ''/srv/app'' (snd (create_app_in ''/srv/app'' empty_heap))))) 0
     = Some ((create_app ''/srv/app'')\<lparr>got_first_request := True\<rparr>)"
proof -
  let ?R = "''/srv/app''"
  let ?c1 = "create_app_in ?R (run demo_env ?R [] empty_heap)"
  let ?c2 = "create_app_in ?R (run demo_env ?R [] (snd ?c1))"
  have a: "?c1 = (fst ?c1, snd ?c1)" by simp
  have b: "?c2 = (fst ?c2, snd ?c2)" by simp
  note t = factory_instances_independent [OF a b, of "[Serve 0 probe]"]
  have r1: "fst ?c1 = 0"
    using create_app_in_props(1) [OF wf_empty, of ?R "fst ?c1" "snd ?c1"]
    by (simp add: empty_heap_def)
  have "well_formed (snd ?c1)" "length (app_objs (snd ?c1)) = 1"
    using create_app_in_props(2,3) [OF wf_empty, of ?R "fst ?c1" "snd ?c1"]
    by (simp_all add: empty_heap_def)
  then have r2: "fst ?c2 = 1"
    using create_app_in_props(1) [of "snd ?c1" ?R "fst ?c2" "snd ?c2"] by simp
  from t r1 r2 show ?thesis
    by (auto simp add: serve_all_eq)
qed

end
